theory Spec2Isabelle
  imports Main "HOL-Library.Sublist"
begin

section \<open>Python values used by the scraper\<close>

text \<open>
  A Python \<open>str\<close> is modelled as a HOL \<open>string\<close>, one \<open>char\<close> per code point; the model
  therefore covers the code points below 256. Python integers are unbounded: \<open>int\<close>.
\<close>

text \<open>
  The exceptions the modelled code can raise. \<open>ValueError\<close> and \<open>Exception\<close> carry the
  message the source builds; for the \<open>ValueError\<close> raised by the built-in \<open>int()\<close> the
  payload is the offending literal. \<open>KeyError\<close> carries the missing key.
\<close>

datatype error =
    ValueError string
  | KeyError string
  | IndexError
  | OverflowError
  | Exception string

definition ebind :: "error + 'a \<Rightarrow> ('a \<Rightarrow> error + 'b) \<Rightarrow> error + 'b" where
  "ebind m f = (case m of Inl e \<Rightarrow> Inl e | Inr x \<Rightarrow> f x)"

text \<open>\<open>xs[i]\<close> for a non-negative index: \<open>IndexError\<close> out of range.\<close>

definition getitem :: "'a list \<Rightarrow> nat \<Rightarrow> error + 'a" where
  "getitem xs i = (if i < length xs then Inr (xs ! i) else Inl IndexError)"

subsection \<open>\<open>int(str)\<close>\<close>

text \<open>
  \<open>int(s)\<close> in base 10: surrounding whitespace is stripped, one sign is allowed, and the
  digits may be grouped by single underscores. The whitespace code points below 256
  that \<open>int()\<close> strips are TAB, LF, VT, FF, CR, space, NEL (133) and NBSP (160). The
  interpreter's configurable limit on the number of digits is not modelled.
\<close>

definition is_space :: "char \<Rightarrow> bool" where
  "is_space c = ((of_char c :: nat) \<in> {9, 10, 11, 12, 13, 32, 133, 160})"

definition is_digit :: "char \<Rightarrow> bool" where
  "is_digit c = (48 \<le> (of_char c :: nat) \<and> (of_char c :: nat) \<le> 57)"

definition digit_val :: "char \<Rightarrow> nat" where
  "digit_val c = of_char c - 48"

definition strip :: "string \<Rightarrow> string" where
  "strip s = rev (dropWhile is_space (rev (dropWhile is_space s)))"

text \<open>The digits after a first digit, whose value so far is \<open>acc\<close>.\<close>

fun digits_val :: "nat \<Rightarrow> string \<Rightarrow> nat option" where
  "digits_val acc [] = Some acc"
| "digits_val acc (c # cs) =
     (if is_digit c then digits_val (10 * acc + digit_val c) cs
      else if c = CHR ''_'' then
        (case cs of
           [] \<Rightarrow> None
         | d # ds \<Rightarrow> if is_digit d then digits_val (10 * acc + digit_val d) ds else None)
      else None)"

definition int_literal :: "string \<Rightarrow> nat option" where
  "int_literal s =
     (case s of
        [] \<Rightarrow> None
      | c # cs \<Rightarrow> if is_digit c then digits_val (digit_val c) cs else None)"

definition py_int :: "string \<Rightarrow> error + int" where
  "py_int s =
     (let t = strip s in
      case (case t of
              [] \<Rightarrow> None
            | c # cs \<Rightarrow>
                if c = CHR ''-'' then map_option (\<lambda>n. - int n) (int_literal cs)
                else if c = CHR ''+'' then map_option int (int_literal cs)
                else map_option int (int_literal t)) of
        None \<Rightarrow> Inl (ValueError s)
      | Some i \<Rightarrow> Inr i)"

subsection \<open>\<open>str(int)\<close> and the format \<open>02d\<close>\<close>

fun str_nat :: "nat \<Rightarrow> string" where
  "str_nat n =
     (if n < 10 then [char_of (48 + n)]
      else str_nat (n div 10) @ [char_of (48 + n mod 10)])"

declare str_nat.simps [simp del]

definition str_int :: "int \<Rightarrow> string" where
  "str_int i = (if i < 0 then CHR ''-'' # str_nat (nat (- i)) else str_nat (nat i))"

text \<open>
  \<open>f"{i:02d}"\<close>: zero fill to width 2, the sign counted in the width, so only
  0..9 gain a zero.
\<close>

definition format_02d :: "int \<Rightarrow> string" where
  "format_02d i = (if 0 \<le> i \<and> i < 10 then CHR ''0'' # str_int i else str_int i)"

subsection \<open>\<open>str.split(sep)\<close> for a one-character separator\<close>

fun py_split :: "char \<Rightarrow> string \<Rightarrow> string list" where
  "py_split sep [] = [[]]"
| "py_split sep (c # cs) =
     (if c = sep then [] # py_split sep cs
      else (case py_split sep cs of
              [] \<Rightarrow> [[c]]
            | x # xs \<Rightarrow> (c # x) # xs))"

section \<open>\<open>YouTubeChannelScraper._parse_duration\<close>\<close>

text \<open>
  The three \<open>if marker in duration\<close> blocks, each returning the parsed count and the
  rest of the string, then the formatting. The leading underscore of the source's
  name is dropped.
\<close>

definition parse_component :: "char \<Rightarrow> string \<Rightarrow> error + (int \<times> string)" where
  "parse_component marker duration =
     (if marker \<in> set duration then
        ebind (getitem (py_split marker duration) 0) (\<lambda>lit.
        ebind (py_int lit) (\<lambda>n.
        ebind (getitem (py_split marker duration) 1) (\<lambda>rest.
        Inr (n, rest))))
      else Inr (0, duration))"

definition parse_duration :: "string \<Rightarrow> error + string" where
  "parse_duration duration0 =
     (if duration0 = [] then Inr ''0:00''
      else
        let duration = drop 2 duration0 in
        ebind (parse_component CHR ''H'' duration) (\<lambda>(hours, duration).
        ebind (parse_component CHR ''M'' duration) (\<lambda>(minutes, duration).
        ebind (if CHR ''S'' \<in> set duration
               then ebind (getitem (py_split CHR ''S'' duration) 0) py_int
               else Inr 0) (\<lambda>seconds.
        if hours > 0
        then Inr (str_int hours @ '':'' @ format_02d minutes @ '':'' @ format_02d seconds)
        else Inr (str_int minutes @ '':'' @ format_02d seconds)))))"

section \<open>The upstream API and the effects of a run\<close>

text \<open>
  \<open>request.execute()\<close> either returns the decoded response or raises \<open>HttpError\<close>,
  whose \<open>resp.status\<close> and text are kept. A response is a JSON object; a key the code
  reads with \<open>[...]\<close> or \<open>.get\<close> is an option here, \<open>None\<close> when the key is absent. The
  request arguments that are the same in every call of an endpoint (\<open>type\<close>, \<open>order\<close>,
  \<open>maxResults\<close>) are left out of the request values.
\<close>

datatype http_error = HttpError (status: nat) (message: string)

datatype channels_request =
    ChannelsById string string
  | ChannelsForUsername string string

datatype channel_item = ChannelItem (item_id: "string option")

record channels_response =
  channel_items :: "channel_item list option"

record search_params =
  part :: string
  channelId :: string
  pageToken :: "string option"
  publishedAfter :: "string option"
  publishedBefore :: "string option"

text \<open>\<open>videoId_of\<close> is \<open>item['id']['videoId']\<close>.\<close>

datatype search_item = SearchItem (videoId_of: "string option")

record search_response =
  search_items :: "search_item list option"
  nextPageToken :: "string option"

record videos_request =
  videos_part :: string
  videos_id :: string

datatype thumbnail = Thumbnail (thumb_url: "string option")

record snippet =
  sn_title :: "string option"
  sn_description :: "string option"
  sn_channelTitle :: "string option"
  sn_publishedAt :: "string option"
  sn_thumbnails :: "(string \<rightharpoonup> thumbnail) option"
  sn_tags :: "string list option"
  sn_categoryId :: "string option"
  sn_defaultLanguage :: "string option"

record statistics =
  st_viewCount :: "string option"
  st_likeCount :: "string option"
  st_commentCount :: "string option"

record content_details =
  cd_duration :: "string option"

record video_data =
  vd_id :: "string option"
  vd_snippet :: "snippet option"
  vd_statistics :: "statistics option"
  vd_contentDetails :: "content_details option"

record videos_response =
  video_items :: "video_data list option"

text \<open>
  The upstream service has a state of its own (quota, time), of any type \<open>'u\<close>: each
  call takes the state and returns the next one.
\<close>

record 'u api =
  channels_list :: "channels_request \<Rightarrow> 'u \<Rightarrow> (http_error + channels_response) \<times> 'u"
  search_list :: "search_params \<Rightarrow> 'u \<Rightarrow> (http_error + search_response) \<times> 'u"
  videos_list :: "videos_request \<Rightarrow> 'u \<Rightarrow> (http_error + videos_response) \<times> 'u"

text \<open>
  What a run does besides returning: the calls it issues with their answers, the
  \<open>time.sleep\<close> calls (in milliseconds) and the lines it prints, in order.
\<close>

datatype event =
    ChannelsCall channels_request "http_error + channels_response"
  | SearchCall search_params "http_error + search_response"
  | VideosCall videos_request "http_error + videos_response"
  | Sleep nat
  | Print string

record 'u world =
  upstream :: 'u
  trace :: "event list"

definition py_print :: "string \<Rightarrow> 'u world \<Rightarrow> 'u world" where
  "py_print line w = w\<lparr>trace := trace w @ [Print line]\<rparr>"

definition sleep :: "nat \<Rightarrow> 'u world \<Rightarrow> 'u world" where
  "sleep ms w = w\<lparr>trace := trace w @ [Sleep ms]\<rparr>"

definition execute_channels ::
  "'u api \<Rightarrow> channels_request \<Rightarrow> 'u world \<Rightarrow> (http_error + channels_response) \<times> 'u world" where
  "execute_channels a q w =
     (case channels_list a q (upstream w) of
        (r, u) \<Rightarrow> (r, w\<lparr>upstream := u, trace := trace w @ [ChannelsCall q r]\<rparr>))"

definition execute_search ::
  "'u api \<Rightarrow> search_params \<Rightarrow> 'u world \<Rightarrow> (http_error + search_response) \<times> 'u world" where
  "execute_search a q w =
     (case search_list a q (upstream w) of
        (r, u) \<Rightarrow> (r, w\<lparr>upstream := u, trace := trace w @ [SearchCall q r]\<rparr>))"

definition execute_videos ::
  "'u api \<Rightarrow> videos_request \<Rightarrow> 'u world \<Rightarrow> (http_error + videos_response) \<times> 'u world" where
  "execute_videos a q w =
     (case videos_list a q (upstream w) of
        (r, u) \<Rightarrow> (r, w\<lparr>upstream := u, trace := trace w @ [VideosCall q r]\<rparr>))"

text \<open>\<open>self.rate_limit_delay = 0.1\<close> seconds, and the 60 seconds of the cooldown.\<close>

definition rate_limit_delay :: nat where
  "rate_limit_delay = 100"

definition cooldown :: nat where
  "cooldown = 60000"

text \<open>The truth value of an optional string: \<open>None\<close> and \<open>""\<close> are false.\<close>

definition truthy :: "string option \<Rightarrow> bool" where
  "truthy x = (case x of None \<Rightarrow> False | Some s \<Rightarrow> s \<noteq> [])"

section \<open>\<open>YouTubeChannelScraper.get_channel_id\<close>\<close>

text \<open>The second half of the function: the lookup by username.\<close>

definition lookup_username :: "'u api \<Rightarrow> string \<Rightarrow> 'u world \<Rightarrow> (error + string) \<times> 'u world" where
  "lookup_username a channel_identifier w =
     (case execute_channels a (ChannelsForUsername ''id'' channel_identifier) w of
        (Inl e, w1) \<Rightarrow> (Inl (Exception (''Error getting channel ID: '' @ message e)), w1)
      | (Inr response, w1) \<Rightarrow>
          (case channel_items response of
             Some (item # items) \<Rightarrow>
               (case item_id item of
                  None \<Rightarrow> (Inl (KeyError ''id''), w1)
                | Some i \<Rightarrow> (Inr i, w1))
           | _ \<Rightarrow> (Inl (ValueError (''Channel not found: '' @ channel_identifier)), w1)))"

definition get_channel_id :: "'u api \<Rightarrow> string \<Rightarrow> 'u world \<Rightarrow> (error + string) \<times> 'u world" where
  "get_channel_id a channel_identifier w =
     (if prefix ''UC'' channel_identifier then
        (case execute_channels a (ChannelsById ''id'' channel_identifier) w of
           (Inl e, w1) \<Rightarrow> (Inl (Exception (''Error getting channel ID: '' @ message e)), w1)
         | (Inr response, w1) \<Rightarrow>
             (case channel_items response of
                None \<Rightarrow> (Inl (KeyError ''items''), w1)
              | Some [] \<Rightarrow> lookup_username a channel_identifier w1
              | Some (item # items) \<Rightarrow> (Inr channel_identifier, w1)))
      else lookup_username a channel_identifier w)"

section \<open>\<open>YouTubeChannelScraper.get_all_video_ids\<close>\<close>

text \<open>
  \<open>max_videos and len(video_ids) >= max_videos\<close>: the limit when it is reached.
  \<open>None\<close> and 0 are false, so they set no limit.
\<close>

definition limit_hit :: "int option \<Rightarrow> string list \<Rightarrow> int option" where
  "limit_hit max_videos video_ids =
     (case max_videos of
        None \<Rightarrow> None
      | Some m \<Rightarrow> if m \<noteq> 0 \<and> m \<le> int (length video_ids) then Some m else None)"

text \<open>\<open>xs[:n]\<close>; a negative \<open>n\<close> counts from the end.\<close>

definition slice_to :: "'a list \<Rightarrow> int \<Rightarrow> 'a list" where
  "slice_to xs n = (if 0 \<le> n then take (nat n) xs else take (nat (int (length xs) + n)) xs)"

text \<open>The \<open>for item in response['items']\<close> loop, with its \<open>break\<close>.\<close>

fun extend_ids :: "int option \<Rightarrow> string list \<Rightarrow> search_item list \<Rightarrow> error + string list" where
  "extend_ids max_videos video_ids [] = Inr video_ids"
| "extend_ids max_videos video_ids (item # items) =
     (case videoId_of item of
        None \<Rightarrow> Inl (KeyError ''videoId'')
      | Some v \<Rightarrow>
          (case limit_hit max_videos (video_ids @ [v]) of
             Some m \<Rightarrow> Inr (video_ids @ [v])
           | None \<Rightarrow> extend_ids max_videos (video_ids @ [v]) items))"

text \<open>
  The search parameters of one iteration: the page token and the date filters are
  added only when they are true.
\<close>

definition search_params_of ::
  "string \<Rightarrow> string option \<Rightarrow> string option \<Rightarrow> string option \<Rightarrow> search_params" where
  "search_params_of channel_id next_page_token published_after published_before =
     \<lparr>part = ''id'', channelId = channel_id,
      pageToken = (if truthy next_page_token then next_page_token else None),
      publishedAfter = (if truthy published_after then published_after else None),
      publishedBefore = (if truthy published_before then published_before else None)\<rparr>"

text \<open>
  The \<open>while True\<close> loop. It can run forever (the upstream may answer 403 without
  end, or hand out cursors without end), so each iteration takes one unit of fuel
  and the loop is \<open>None\<close> when the fuel is used up before it returns.
\<close>

fun video_ids_loop ::
  "nat \<Rightarrow> 'u api \<Rightarrow> string \<Rightarrow> int option \<Rightarrow> string option \<Rightarrow> string option \<Rightarrow>
   string list \<Rightarrow> string option \<Rightarrow> 'u world \<Rightarrow> ((error + string list) \<times> 'u world) option" where
  "video_ids_loop 0 a channel_id max_videos published_after published_before
     video_ids next_page_token w = None"
| "video_ids_loop (Suc fuel) a channel_id max_videos published_after published_before
     video_ids next_page_token w =
     (case execute_search a
             (search_params_of channel_id next_page_token published_after published_before)
             w of
        (Inl e, w1) \<Rightarrow>
          if status e = 403 then
            video_ids_loop fuel a channel_id max_videos published_after published_before
              video_ids next_page_token
              (sleep cooldown (py_print ''Rate limit exceeded. Waiting 60 seconds...'' w1))
          else Some (Inl (Exception (''Error fetching video IDs: '' @ message e)), w1)
      | (Inr response, w1) \<Rightarrow>
          (case search_items response of
             None \<Rightarrow> Some (Inr video_ids, py_print ''Warning: No 'items' in response'' w1)
           | Some items \<Rightarrow>
               (case extend_ids max_videos video_ids items of
                  Inl e \<Rightarrow> Some (Inl e, w1)
                | Inr video_ids1 \<Rightarrow>
                    (case limit_hit max_videos video_ids1 of
                       Some m \<Rightarrow> Some (Inr (slice_to video_ids1 m), w1)
                     | None \<Rightarrow>
                         if \<not> truthy (nextPageToken response) then Some (Inr video_ids1, w1)
                         else
                           video_ids_loop fuel a channel_id max_videos published_after
                             published_before video_ids1 (nextPageToken response)
                             (sleep rate_limit_delay w1)))))"

definition print_if :: "bool \<Rightarrow> string \<Rightarrow> 'u world \<Rightarrow> 'u world" where
  "print_if b line w = (if b then py_print line w else w)"

text \<open>The lines printed before the loop.\<close>

definition announce ::
  "int option \<Rightarrow> string option \<Rightarrow> string option \<Rightarrow> 'u world \<Rightarrow> 'u world" where
  "announce max_videos published_after published_before w =
     (let w1 = py_print ''Fetching video IDs from channel (latest first)...'' w;
          w2 = (case max_videos of
                  None \<Rightarrow> w1
                | Some m \<Rightarrow>
                    print_if (m \<noteq> 0) (''Limiting to '' @ str_int m @ '' videos'') w1);
          w3 = (case published_after of
                  None \<Rightarrow> w2
                | Some d \<Rightarrow> print_if (d \<noteq> []) (''Published after: '' @ d) w2)
      in case published_before of
           None \<Rightarrow> w3
         | Some d \<Rightarrow> print_if (d \<noteq> []) (''Published before: '' @ d) w3)"

definition get_all_video_ids ::
  "nat \<Rightarrow> 'u api \<Rightarrow> string \<Rightarrow> int option \<Rightarrow> string option \<Rightarrow> string option \<Rightarrow>
   'u world \<Rightarrow> ((error + string list) \<times> 'u world) option" where
  "get_all_video_ids fuel a channel_id max_videos published_after published_before w =
     (case video_ids_loop fuel a channel_id max_videos published_after published_before
             [] None (announce max_videos published_after published_before w) of
        None \<Rightarrow> None
      | Some (Inl e, w1) \<Rightarrow> Some (Inl e, w1)
      | Some (Inr video_ids, w1) \<Rightarrow>
          Some (Inr video_ids,
                py_print (''Found '' @ str_nat (length video_ids) @ '' videos'') w1))"

section \<open>\<open>YouTubeChannelScraper._parse_video_data\<close>\<close>

record video_metadata =
  video_id :: string
  url :: string
  title :: string
  description :: string
  channel_title :: string
  published_at :: string
  duration :: string
  view_count :: int
  like_count :: int
  comment_count :: int
  thumbnail_url :: string
  tags :: "string list"
  category_id :: string
  language :: string

text \<open>\<open>d.get(key, default)\<close>.\<close>

definition get_or :: "'a option \<Rightarrow> 'a \<Rightarrow> 'a" where
  "get_or v dflt = (case v of None \<Rightarrow> dflt | Some x \<Rightarrow> x)"

text \<open>\<open>int(statistics.get(key, 0))\<close>: the upstream sends the counts as strings.\<close>

definition int_or_0 :: "string option \<Rightarrow> error + int" where
  "int_or_0 v = (case v of None \<Rightarrow> Inr 0 | Some s \<Rightarrow> py_int s)"

definition url_of_thumbnail :: "thumbnail \<Rightarrow> error + string" where
  "url_of_thumbnail t = (case thumb_url t of None \<Rightarrow> Inl (KeyError ''url'') | Some u \<Rightarrow> Inr u)"

definition select_thumbnail :: "(string \<rightharpoonup> thumbnail) \<Rightarrow> error + string" where
  "select_thumbnail thumbnails =
     (case thumbnails ''maxres'' of
        Some t \<Rightarrow> url_of_thumbnail t
      | None \<Rightarrow>
     (case thumbnails ''high'' of
        Some t \<Rightarrow> url_of_thumbnail t
      | None \<Rightarrow>
     (case thumbnails ''medium'' of
        Some t \<Rightarrow> url_of_thumbnail t
      | None \<Rightarrow>
     (case thumbnails ''default'' of
        Some t \<Rightarrow> url_of_thumbnail t
      | None \<Rightarrow> Inr ''''))))"

definition parse_video_data :: "video_data \<Rightarrow> error + video_metadata" where
  "parse_video_data item =
     (case vd_snippet item of
        None \<Rightarrow> Inl (KeyError ''snippet'')
      | Some snippet \<Rightarrow>
          let statistics =
                get_or (vd_statistics item)
                  \<lparr>st_viewCount = None, st_likeCount = None, st_commentCount = None\<rparr>;
              content_details = get_or (vd_contentDetails item) \<lparr>cd_duration = None\<rparr>
          in
          ebind (parse_duration (get_or (cd_duration content_details) '''')) (\<lambda>dur.
          ebind (select_thumbnail (get_or (sn_thumbnails snippet) Map.empty)) (\<lambda>thumb.
          ebind (case vd_id item of None \<Rightarrow> Inl (KeyError ''id'') | Some i \<Rightarrow> Inr i) (\<lambda>vid.
          ebind (int_or_0 (st_viewCount statistics)) (\<lambda>views.
          ebind (int_or_0 (st_likeCount statistics)) (\<lambda>likes.
          ebind (int_or_0 (st_commentCount statistics)) (\<lambda>comments.
          Inr \<lparr>video_id = vid,
               url = ''https://www.youtube.com/watch?v='' @ vid,
               title = get_or (sn_title snippet) '''',
               description = get_or (sn_description snippet) '''',
               channel_title = get_or (sn_channelTitle snippet) '''',
               published_at = get_or (sn_publishedAt snippet) '''',
               duration = dur,
               view_count = views,
               like_count = likes,
               comment_count = comments,
               thumbnail_url = thumb,
               tags = get_or (sn_tags snippet) [],
               category_id = get_or (sn_categoryId snippet) '''',
               language = get_or (sn_defaultLanguage snippet) ''''\<rparr>)))))))"

section \<open>\<open>YouTubeChannelScraper.get_video_metadata\<close>\<close>

text \<open>\<open>range(start, stop, step)\<close> for naturals; Python refuses a zero step.\<close>

function range_step :: "nat \<Rightarrow> nat \<Rightarrow> nat \<Rightarrow> nat list" where
  "range_step start stop step =
     (if step = 0 \<or> stop \<le> start then [] else start # range_step (start + step) stop step)"
  by pat_completeness auto
termination
  by (relation "measure (\<lambda>(start, stop, step). stop - start)") auto

declare range_step.simps [simp del]

definition batch_size :: nat where
  "batch_size = 50"

text \<open>
  The batches the \<open>for\<close> loop visits: \<open>video_ids[i:i + batch_size]\<close> for \<open>i\<close> in
  \<open>range(0, len(video_ids), batch_size)\<close>.
\<close>

definition batches :: "string list \<Rightarrow> string list list" where
  "batches video_ids =
     map (\<lambda>i. take batch_size (drop i video_ids)) (range_step 0 (length video_ids) batch_size)"

text \<open>\<open>sep.join(xs)\<close>.\<close>

fun join :: "string \<Rightarrow> string list \<Rightarrow> string" where
  "join sep [] = []"
| "join sep [x] = x"
| "join sep (x # y # ys) = x @ sep @ join sep (y # ys)"

definition videos_request_of :: "string list \<Rightarrow> videos_request" where
  "videos_request_of batch =
     \<lparr>videos_part = ''snippet,statistics,contentDetails'', videos_id = join '','' batch\<rparr>"

text \<open>The \<open>for item in response['items']\<close> loop of one batch.\<close>

fun parse_items :: "video_data list \<Rightarrow> error + video_metadata list" where
  "parse_items [] = Inr []"
| "parse_items (item # items) =
     ebind (parse_video_data item) (\<lambda>m.
     ebind (parse_items items) (\<lambda>ms. Inr (m # ms)))"

text \<open>
  The loop over the batches. \<open>continue\<close> in a \<open>for\<close> loop goes on with the next batch,
  in both branches of the handler.
\<close>

fun metadata_loop ::
  "'u api \<Rightarrow> string list list \<Rightarrow> video_metadata list \<Rightarrow> 'u world \<Rightarrow>
   (error + video_metadata list) \<times> 'u world" where
  "metadata_loop a [] videos_metadata w = (Inr videos_metadata, w)"
| "metadata_loop a (batch # rest) videos_metadata w =
     (case execute_videos a (videos_request_of batch) w of
        (Inl e, w1) \<Rightarrow>
          if status e = 403 then
            metadata_loop a rest videos_metadata
              (sleep cooldown (py_print ''Rate limit exceeded. Waiting 60 seconds...'' w1))
          else
            metadata_loop a rest videos_metadata
              (py_print (''Error fetching video metadata: '' @ message e) w1)
      | (Inr response, w1) \<Rightarrow>
          (case video_items response of
             None \<Rightarrow> (Inl (KeyError ''items''), w1)
           | Some items \<Rightarrow>
               (case parse_items items of
                  Inl e \<Rightarrow> (Inl e, w1)
                | Inr ms \<Rightarrow>
                    metadata_loop a rest (videos_metadata @ ms) (sleep rate_limit_delay w1))))"

definition get_video_metadata ::
  "'u api \<Rightarrow> string list \<Rightarrow> 'u world \<Rightarrow> (error + video_metadata list) \<times> 'u world" where
  "get_video_metadata a video_ids w =
     metadata_loop a (batches video_ids) [] (py_print ''Fetching video metadata...'' w)"

section \<open>The \<open>datetime\<close> values of the date buffer\<close>





















subsection \<open>\<open>datetime.fromisoformat\<close> on timestamps with seconds\<close>






section \<open>\<open>YouTubeChannelScraper.scrape_channel\<close>\<close>





section \<open>\<open>main\<close>: the date-range label of the file names\<close>

text \<open>
  \<open>published_after[:4] if published_after else "all"\<close>, and the same for the end.
\<close>

definition year_or_all :: "string option \<Rightarrow> string" where
  "year_or_all d = (case d of None \<Rightarrow> ''all'' | Some s \<Rightarrow> if s \<noteq> [] then take 4 s else ''all'')"

text \<open>
  The block of \<open>main\<close> that computes \<open>date_range\<close> from the two environment values
  (as they were read, before any buffering).
\<close>

definition date_range :: "string option \<Rightarrow> string option \<Rightarrow> string" where
  "date_range published_after published_before =
     (if truthy published_after \<and> truthy published_before then
        let start_year = year_or_all published_after;
            end_year = year_or_all published_before
        in if start_year = end_year then start_year else start_year @ ''-'' @ end_year
      else ''all_dates'')"

section \<open>A scripted upstream\<close>

text \<open>
  An upstream that answers each endpoint from a list, one answer per call, and with
  status 500 when the list is used up. It is what a test double is to the scraper.
\<close>

record script =
  channels_script :: "(http_error + channels_response) list"
  search_script :: "(http_error + search_response) list"
  videos_script :: "(http_error + videos_response) list"

definition scripted :: "script api" where
  "scripted =
     \<lparr>channels_list = (\<lambda>q u.
        case channels_script u of
          [] \<Rightarrow> (Inl (HttpError 500 ''script exhausted''), u)
        | r # rs \<Rightarrow> (r, u\<lparr>channels_script := rs\<rparr>)),
      search_list = (\<lambda>q u.
        case search_script u of
          [] \<Rightarrow> (Inl (HttpError 500 ''script exhausted''), u)
        | r # rs \<Rightarrow> (r, u\<lparr>search_script := rs\<rparr>)),
      videos_list = (\<lambda>q u.
        case videos_script u of
          [] \<Rightarrow> (Inl (HttpError 500 ''script exhausted''), u)
        | r # rs \<Rightarrow> (r, u\<lparr>videos_script := rs\<rparr>))\<rparr>"

text \<open>A video item as the upstream sends it, and the record it parses to.\<close>

definition sample_video :: "string \<Rightarrow> video_data" where
  "sample_video vid =
     \<lparr>vd_id = Some vid,
      vd_snippet = Some
        \<lparr>sn_title = Some ''A title'', sn_description = None,
         sn_channelTitle = Some ''A channel'', sn_publishedAt = Some ''2022-03-04T05:06:07Z'',
         sn_thumbnails = Some [''high'' \<mapsto> Thumbnail (Some ''https://i.ytimg.com/hq.jpg'')],
         sn_tags = None, sn_categoryId = Some ''22'', sn_defaultLanguage = None\<rparr>,
      vd_statistics = Some
        \<lparr>st_viewCount = Some ''12'', st_likeCount = None, st_commentCount = Some ''0''\<rparr>,
      vd_contentDetails = Some \<lparr>cd_duration = Some ''PT4M13S''\<rparr>\<rparr>"

definition sample_metadata :: "string \<Rightarrow> video_metadata" where
  "sample_metadata vid =
     \<lparr>video_id = vid, url = ''https://www.youtube.com/watch?v='' @ vid,
      title = ''A title'', description = [], channel_title = ''A channel'',
      published_at = ''2022-03-04T05:06:07Z'', duration = ''4:13'',
      view_count = 12, like_count = 0, comment_count = 0,
      thumbnail_url = ''https://i.ytimg.com/hq.jpg'', tags = [],
      category_id = ''22'', language = []\<rparr>"

section \<open>Vocabulary of the specification\<close>

subsection \<open>Compact durations and clock strings\<close>

text \<open>
  A well-formed compact duration: the prefix \<open>PT\<close>, then an optional hour count
  terminated by \<open>H\<close>, an optional minute count terminated by \<open>M\<close> and an optional
  second count terminated by \<open>S\<close>, each count a non-empty string of decimal digits.
\<close>

definition decimal :: "string \<Rightarrow> bool" where
  "decimal ds = (ds \<noteq> [] \<and> (\<forall>c \<in> set ds. is_digit c))"

definition decimal_val :: "string \<Rightarrow> nat" where
  "decimal_val ds = foldl (\<lambda>a c. 10 * a + digit_val c) 0 ds"

definition component :: "string option \<Rightarrow> char \<Rightarrow> string" where
  "component c marker = (case c of None \<Rightarrow> [] | Some ds \<Rightarrow> ds @ [marker])"

definition compact_duration :: "string option \<Rightarrow> string option \<Rightarrow> string option \<Rightarrow> string" where
  "compact_duration hs ms ss =
     ''PT'' @ component hs CHR ''H'' @ component ms CHR ''M'' @ component ss CHR ''S''"

definition well_formed :: "string option \<Rightarrow> bool" where
  "well_formed c = (case c of None \<Rightarrow> True | Some ds \<Rightarrow> decimal ds)"

text \<open>The number a component stands for; an absent component counts 0.\<close>

definition count :: "string option \<Rightarrow> nat" where
  "count c = (case c of None \<Rightarrow> 0 | Some ds \<Rightarrow> decimal_val ds)"

text \<open>A number written in decimal and filled with zeros on the left to two digits.\<close>

definition zero_pad2 :: "nat \<Rightarrow> string" where
  "zero_pad2 n = replicate (2 - length (str_nat n)) CHR ''0'' @ str_nat n"

text \<open>\<open>H:MM:SS\<close> when there are hours, \<open>M:SS\<close> otherwise.\<close>

definition clock :: "nat \<Rightarrow> nat \<Rightarrow> nat \<Rightarrow> string" where
  "clock h m s =
     (if h > 0 then str_nat h @ '':'' @ zero_pad2 m @ '':'' @ zero_pad2 s
      else str_nat m @ '':'' @ zero_pad2 s)"

subsection \<open>Batches and their answers\<close>




subsection \<open>Listing pages in a trace\<close>

text \<open>The identifiers a listing answer carries.\<close>

definition page_ids :: "http_error + search_response \<Rightarrow> string list" where
  "page_ids r =
     (case r of
        Inl e \<Rightarrow> []
      | Inr response \<Rightarrow>
          (case search_items response of
             None \<Rightarrow> []
           | Some items \<Rightarrow> List.map_filter videoId_of items))"

text \<open>The identifiers of all the pages a trace received, in order.\<close>

fun listed :: "event list \<Rightarrow> string list" where
  "listed [] = []"
| "listed (SearchCall q r # t) = page_ids r @ listed t"
| "listed (e # t) = listed t"

text \<open>
  Every listing call of the trace is issued while fewer than \<open>k\<close> identifiers have
  been received, \<open>n\<close> of them before the trace starts.
\<close>

fun calls_below :: "nat \<Rightarrow> nat \<Rightarrow> event list \<Rightarrow> bool" where
  "calls_below k n [] = True"
| "calls_below k n (SearchCall q r # t) = (n < k \<and> calls_below k (n + length (page_ids r)) t)"
| "calls_below k n (e # t) = calls_below k n t"

text \<open>The answer to the last listing call of a trace.\<close>

fun last_search :: "event list \<Rightarrow> (http_error + search_response) option" where
  "last_search [] = None"
| "last_search (SearchCall q r # t) = (case last_search t of None \<Rightarrow> Some r | Some r' \<Rightarrow> Some r')"
| "last_search (e # t) = last_search t"


subsection \<open>Dates a number of days apart\<close>





subsection \<open>The date buffer\<close>






section \<open>Properties of the string primitives\<close>

lemma ebind_simps [simp]: "ebind (Inl e) f = Inl e" "ebind (Inr x) f = f x"
  by (simp_all add: ebind_def)


lemma py_split_absent: "sep \<notin> set s \<Longrightarrow> py_split sep s = [s]"
  by (induction s) auto

lemma py_split_first: "sep \<notin> set a \<Longrightarrow> py_split sep (a @ sep # b) = a # py_split sep b"
  by (induction a) auto


lemma digit_not_space: "is_digit c \<Longrightarrow> \<not> is_space c"
  by (auto simp: is_digit_def is_space_def)

lemma digit_not_sign: "is_digit c \<Longrightarrow> c \<noteq> CHR ''-'' \<and> c \<noteq> CHR ''+''"
  by (auto simp: is_digit_def)

lemma digit_not_marker:
  "is_digit c \<Longrightarrow> c \<noteq> CHR ''H'' \<and> c \<noteq> CHR ''M'' \<and> c \<noteq> CHR ''S''"
  by (auto simp: is_digit_def)

lemma digits_val_all:
  "\<forall>c \<in> set ds. is_digit c \<Longrightarrow>
     digits_val acc ds = Some (foldl (\<lambda>a c. 10 * a + digit_val c) acc ds)"
  by (induction ds arbitrary: acc) auto

lemma strip_decimal: "decimal ds \<Longrightarrow> strip ds = ds"
proof -
  assume d: "decimal ds"
  then obtain c cs where ds: "ds = c # cs" by (cases ds) (auto simp: decimal_def)
  with d have 1: "dropWhile is_space ds = ds" by (simp add: decimal_def digit_not_space)
  from d have "rev ds \<noteq> []" "is_digit (hd (rev ds))"
    by (auto simp: decimal_def hd_rev)
  then have 2: "dropWhile is_space (rev ds) = rev ds"
    by (cases "rev ds") (auto simp: digit_not_space)
  show ?thesis by (simp add: strip_def 1 2)
qed

lemma py_int_decimal: "decimal ds \<Longrightarrow> py_int ds = Inr (int (decimal_val ds))"
proof -
  assume d: "decimal ds"
  then obtain c cs where ds: "ds = c # cs" and c: "is_digit c"
    and cs: "\<forall>x \<in> set cs. is_digit x"
    by (cases ds) (auto simp: decimal_def)
  have "int_literal ds = Some (decimal_val ds)"
    by (simp add: int_literal_def ds c digits_val_all [OF cs] decimal_val_def)
  moreover have "strip (c # cs) = c # cs"
    using strip_decimal [OF d] by (simp add: ds)
  ultimately show ?thesis
    using digit_not_sign [OF c] by (simp add: py_int_def ds)
qed

lemma str_nat_small: "n < 10 \<Longrightarrow> str_nat n = [char_of (48 + n)]"
  by (subst str_nat.simps) simp

lemma str_nat_large: "10 \<le> n \<Longrightarrow> str_nat n = str_nat (n div 10) @ [char_of (48 + n mod 10)]"
  by (subst str_nat.simps) simp

lemma str_nat_not_Nil: "str_nat n \<noteq> []"
  by (subst str_nat.simps) simp

lemma length_str_nat_large: "10 \<le> n \<Longrightarrow> 2 \<le> length (str_nat n)"
proof -
  assume "10 \<le> n"
  then have "length (str_nat n) = length (str_nat (n div 10)) + 1"
    by (subst str_nat.simps) simp
  moreover have "1 \<le> length (str_nat (n div 10))"
    using str_nat_not_Nil [of "n div 10"] by (cases "str_nat (n div 10)") simp_all
  ultimately show ?thesis by simp
qed

lemma str_int_nat: "str_int (int n) = str_nat n"
  by (simp add: str_int_def)

lemma format_02d_nat: "format_02d (int n) = zero_pad2 n"
proof (cases "n < 10")
  case True
  then show ?thesis by (simp add: format_02d_def zero_pad2_def str_int_nat str_nat_small)
next
  case False
  then have "2 \<le> length (str_nat n)" by (simp add: length_str_nat_large)
  with False show ?thesis by (simp add: format_02d_def zero_pad2_def str_int_nat)
qed

lemma zero_pad2_large: "10 \<le> n \<Longrightarrow> zero_pad2 n = str_nat n"
  using length_str_nat_large [of n] by (simp add: zero_pad2_def)

lemma decimal_val_snoc: "decimal_val (ds @ [c]) = 10 * decimal_val ds + digit_val c"
  by (simp add: decimal_val_def)

lemma digit_val_char_of: "n < 10 \<Longrightarrow> digit_val (char_of (48 + n)) = n \<and> is_digit (char_of (48 + n))"
  by (simp add: digit_val_def is_digit_def)

text \<open>\<open>str\<close> writes the decimal numeral of its argument.\<close>

lemma decimal_val_str_nat: "decimal_val (str_nat n) = n"
proof (induction n rule: str_nat.induct)
  case (1 n)
  show ?case
  proof (cases "n < 10")
    case True
    then show ?thesis by (simp add: str_nat_small decimal_val_def digit_val_char_of)
  next
    case False
    with 1 have "decimal_val (str_nat (n div 10)) = n div 10" by simp
    with False show ?thesis
      by (simp add: str_nat_large decimal_val_snoc digit_val_char_of)
  qed
qed

lemma decimal_str_nat: "decimal (str_nat n)"
proof (induction n rule: str_nat.induct)
  case (1 n)
  show ?case
  proof (cases "n < 10")
    case True
    then show ?thesis by (simp add: str_nat_small decimal_def digit_val_char_of)
  next
    case False
    with 1 have "decimal (str_nat (n div 10))" by simp
    with False show ?thesis
      by (simp add: str_nat_large decimal_def digit_val_char_of)
  qed
qed

lemma zero_pad2_length: "length (zero_pad2 n) = max 2 (length (str_nat n))"
  by (simp add: zero_pad2_def)

section \<open>Properties of \<open>_parse_duration\<close>\<close>

lemma parse_component_present:
  assumes "decimal ds" "marker \<notin> set ds" "marker \<notin> set rest"
  shows "parse_component marker (ds @ marker # rest) = Inr (int (decimal_val ds), rest)"
  using assms
  by (simp add: parse_component_def py_split_first py_split_absent getitem_def py_int_decimal)

lemma parse_component_absent:
  "marker \<notin> set s \<Longrightarrow> parse_component marker s = Inr (0, s)"
  by (simp add: parse_component_def)

lemma parse_component_opt:
  assumes "well_formed c" "marker \<in> {CHR ''H'', CHR ''M'', CHR ''S''}" "marker \<notin> set rest"
  shows "parse_component marker (component c marker @ rest) = Inr (int (count c), rest)"
proof (cases c)
  case None
  with assms show ?thesis by (simp add: component_def count_def parse_component_absent)
next
  case (Some ds)
  with assms have d: "decimal ds" by (simp add: well_formed_def)
  then have "marker \<notin> set ds"
    using assms(2) digit_not_marker by (auto simp: decimal_def)
  with d assms(3) Some show ?thesis
    by (simp add: component_def count_def parse_component_present)
qed

lemma component_other_marker:
  assumes "well_formed c" "m \<in> {CHR ''H'', CHR ''M'', CHR ''S''}" "m \<noteq> marker"
  shows "m \<notin> set (component c marker)"
proof (cases c)
  case None
  then show ?thesis by (simp add: component_def)
next
  case (Some ds)
  with assms have "decimal ds" by (simp add: well_formed_def)
  then have "m \<notin> set ds" using assms(2) digit_not_marker by (auto simp: decimal_def)
  with Some assms(3) show ?thesis by (simp add: component_def)
qed

lemma seconds_opt:
  assumes "well_formed c"
  shows "(if CHR ''S'' \<in> set (component c CHR ''S'')
          then ebind (getitem (py_split CHR ''S'' (component c CHR ''S'')) 0) py_int
          else Inr 0) = Inr (int (count c))"
proof (cases c)
  case None
  then show ?thesis by (simp add: component_def count_def)
next
  case (Some ds)
  with assms have d: "decimal ds" by (simp add: well_formed_def)
  then have "CHR ''S'' \<notin> set ds" using digit_not_marker by (auto simp: decimal_def)
  then have "py_split CHR ''S'' (ds @ [CHR ''S'']) = [ds, []]"
    using py_split_first [of "CHR ''S''" ds "[]"] by simp
  with Some d show ?thesis
    by (simp add: component_def count_def getitem_def py_int_decimal)
qed

lemma parse_duration_compact:
  assumes "well_formed hs" "well_formed ms" "well_formed ss"
  shows "parse_duration (compact_duration hs ms ss) =
           Inr (clock (count hs) (count ms) (count ss))"
proof -
  let ?r2 = "component ss CHR ''S''"
  let ?r1 = "component ms CHR ''M'' @ ?r2"
  have h: "parse_component CHR ''H'' (component hs CHR ''H'' @ ?r1) = Inr (int (count hs), ?r1)"
    using assms component_other_marker [of ms "CHR ''H''" "CHR ''M''"]
      component_other_marker [of ss "CHR ''H''" "CHR ''S''"]
    by (intro parse_component_opt) auto
  have m: "parse_component CHR ''M'' ?r1 = Inr (int (count ms), ?r2)"
    using assms component_other_marker [of ss "CHR ''M''" "CHR ''S''"]
    by (intro parse_component_opt) auto
  show ?thesis
    using h m seconds_opt [OF assms(3)]
    by (simp add: parse_duration_def compact_duration_def clock_def str_int_nat format_02d_nat)
qed









text \<open>
  \<^bold>\<open>C4.\<close> For every well-formed compact duration (optional hour, minute and second
  counts, each a decimal number terminated by its marker), \<open>_parse_duration\<close> returns
  \<open>H:MM:SS\<close>, minutes and seconds zero-padded to two digits, when the hours are
  positive, and \<open>M:SS\<close>, seconds zero-padded and minutes unpadded, when the hours are
  zero. The four examples of the specification are instances, the empty string
  included.
\<close>

theorem parse_duration_well_formed:
  assumes "well_formed hs" "well_formed ms" "well_formed ss"
  shows "parse_duration (compact_duration hs ms ss) =
           Inr (if count hs > 0
                then str_nat (count hs) @ '':'' @ zero_pad2 (count ms) @ '':'' @ zero_pad2 (count ss)
                else str_nat (count ms) @ '':'' @ zero_pad2 (count ss))
         \<and> parse_duration ''PT4M13S'' = Inr ''4:13''
         \<and> parse_duration ''PT1H2M3S'' = Inr ''1:02:03''
         \<and> parse_duration ''PT45S'' = Inr ''0:45''
         \<and> parse_duration '''' = Inr ''0:00''"
proof -
  have general: "parse_duration (compact_duration hs ms ss) =
      Inr (clock (count hs) (count ms) (count ss))"
    using assms by (rule parse_duration_compact)
  have e1: "parse_duration ''PT4M13S'' = Inr ''4:13''" by code_simp
  have e2: "parse_duration ''PT1H2M3S'' = Inr ''1:02:03''" by code_simp
  have e3: "parse_duration ''PT45S'' = Inr ''0:45''" by code_simp
  have e4: "parse_duration '''' = Inr ''0:00''" by (simp add: parse_duration_def)
  show ?thesis using general e1 e2 e3 e4 by (simp add: clock_def)
qed

theorem parse_duration_well_formed_witness:
  "well_formed (Some ''1'') \<and> well_formed (Some ''02'') \<and> well_formed None
   \<and> parse_duration ''PT1H02M'' = Inr ''1:02:00''"
proof -
  have w: "well_formed (Some ''1'')" "well_formed (Some ''02'')" "well_formed None"
    by (simp_all add: well_formed_def decimal_def is_digit_def)
  have c: "compact_duration (Some ''1'') (Some ''02'') None = ''PT1H02M''"
    by (simp add: compact_duration_def component_def)
  have v: "count (Some ''1'') = 1" "count (Some ''02'') = 2" "count None = 0"
    by (simp_all add: count_def decimal_val_def digit_val_def)
  have z: "str_nat (Suc 0) = ''1''" "zero_pad2 2 = ''02''" "zero_pad2 0 = ''00''"
    by code_simp+
  show ?thesis
    using parse_duration_well_formed [OF w] w by (simp add: c v z)
qed




text \<open>
  \<^bold>\<open>C10.\<close> \<open>_parse_duration\<close> does not carry: for every well-formed input, a
  seconds count of 60 or more is printed verbatim (as the decimal numeral of the
  count) after the last colon, and likewise a minutes count of 60 or more; \<open>PT90S\<close>
  gives \<open>0:90\<close>.
\<close>

theorem parse_duration_no_carry:
  assumes "well_formed hs" "well_formed ms" "well_formed ss"
  shows "(60 \<le> count ss \<longrightarrow>
            parse_duration (compact_duration hs ms ss) =
              Inr ((if count hs > 0 then str_nat (count hs) @ '':'' @ zero_pad2 (count ms)
                    else str_nat (count ms)) @ '':'' @ str_nat (count ss)))
         \<and> (60 \<le> count ms \<longrightarrow>
            parse_duration (compact_duration hs ms ss) =
              Inr ((if count hs > 0 then str_nat (count hs) @ '':'' else [])
                   @ str_nat (count ms) @ '':'' @ zero_pad2 (count ss)))
         \<and> decimal_val (str_nat (count ms)) = count ms
         \<and> decimal_val (str_nat (count ss)) = count ss
         \<and> parse_duration ''PT90S'' = Inr ''0:90''"
proof -
  have general: "parse_duration (compact_duration hs ms ss) =
      Inr (clock (count hs) (count ms) (count ss))"
    using assms by (rule parse_duration_compact)
  have e: "parse_duration ''PT90S'' = Inr ''0:90''" by code_simp
  show ?thesis
    using general e by (simp add: clock_def zero_pad2_large decimal_val_str_nat)
qed

theorem parse_duration_no_carry_witness:
  "parse_duration ''PT1H75M90S'' = Inr ''1:75:90''"
proof -
  have w: "well_formed (Some ''1'')" "well_formed (Some ''75'')" "well_formed (Some ''90'')"
    by (simp_all add: well_formed_def decimal_def is_digit_def)
  have c: "compact_duration (Some ''1'') (Some ''75'') (Some ''90'') = ''PT1H75M90S''"
    by (simp add: compact_duration_def component_def)
  have v: "count (Some ''1'') = 1" "count (Some ''75'') = 75" "count (Some ''90'') = 90"
    by (simp_all add: count_def decimal_val_def digit_val_def)
  have z: "str_nat (Suc 0) = ''1''" "str_nat 75 = ''75''" "str_nat 90 = ''90''"
    "zero_pad2 75 = ''75''" "zero_pad2 90 = ''90''"
    by code_simp+
  show ?thesis
    using parse_duration_no_carry [OF w] by (simp add: c v z)
qed

section \<open>Properties of \<open>get_channel_id\<close>\<close>

text \<open>
  \<^bold>\<open>C6.\<close> For an identifier that starts with \<open>UC\<close> and whose lookup by ID finds an
  item, \<open>get_channel_id\<close> returns the identifier unchanged and the lookup by ID is the
  only call it issues. For an identifier without the prefix the one call it issues
  is the lookup by username, and when that lookup yields no items (an absent or an
  empty list) it raises the not-found \<open>ValueError\<close>.
\<close>

theorem get_channel_id_lookup_order:
  "(prefix ''UC'' ident
      \<and> channels_list a (ChannelsById ''id'' ident) (upstream w) = (Inr response, u)
      \<and> channel_items response = Some (item # items)
    \<longrightarrow> get_channel_id a ident w =
          (Inr ident,
           w\<lparr>upstream := u,
             trace := trace w @ [ChannelsCall (ChannelsById ''id'' ident) (Inr response)]\<rparr>))
   \<and> (\<not> prefix ''UC'' ident
    \<longrightarrow> trace (snd (get_channel_id a ident w)) =
          trace w @ [ChannelsCall (ChannelsForUsername ''id'' ident)
                       (fst (channels_list a (ChannelsForUsername ''id'' ident) (upstream w)))])
   \<and> (\<not> prefix ''UC'' ident
      \<and> fst (channels_list a (ChannelsForUsername ''id'' ident) (upstream w)) = Inr response
      \<and> (channel_items response = None \<or> channel_items response = Some [])
    \<longrightarrow> fst (get_channel_id a ident w) = Inl (ValueError (''Channel not found: '' @ ident)))"
proof (intro conjI impI)
  assume "prefix ''UC'' ident
      \<and> channels_list a (ChannelsById ''id'' ident) (upstream w) = (Inr response, u)
      \<and> channel_items response = Some (item # items)"
  then show "get_channel_id a ident w =
          (Inr ident,
           w\<lparr>upstream := u,
             trace := trace w @ [ChannelsCall (ChannelsById ''id'' ident) (Inr response)]\<rparr>)"
    by (simp add: get_channel_id_def execute_channels_def)
next
  assume np: "\<not> prefix ''UC'' ident"
  obtain r u' where c: "channels_list a (ChannelsForUsername ''id'' ident) (upstream w) = (r, u')"
    by (cases "channels_list a (ChannelsForUsername ''id'' ident) (upstream w)")
  show "trace (snd (get_channel_id a ident w)) =
          trace w @ [ChannelsCall (ChannelsForUsername ''id'' ident)
                       (fst (channels_list a (ChannelsForUsername ''id'' ident) (upstream w)))]"
    using np c
    by (simp add: get_channel_id_def lookup_username_def execute_channels_def
        split: sum.splits option.splits list.splits)
next
  assume h: "\<not> prefix ''UC'' ident
      \<and> fst (channels_list a (ChannelsForUsername ''id'' ident) (upstream w)) = Inr response
      \<and> (channel_items response = None \<or> channel_items response = Some [])"
  obtain r u' where c: "channels_list a (ChannelsForUsername ''id'' ident) (upstream w) = (r, u')"
    by (cases "channels_list a (ChannelsForUsername ''id'' ident) (upstream w)")
  with h have r: "r = Inr response" by simp
  show "fst (get_channel_id a ident w) = Inl (ValueError (''Channel not found: '' @ ident))"
    using h c r
    by (auto simp: get_channel_id_def lookup_username_def execute_channels_def)
qed

theorem get_channel_id_lookup_order_witness:
  "get_channel_id scripted ''UCabc''
     \<lparr>upstream = \<lparr>channels_script = [Inr \<lparr>channel_items = Some [ChannelItem (Some ''UCabc'')]\<rparr>],
                   search_script = [], videos_script = []\<rparr>,
      trace = []\<rparr>
   = (Inr ''UCabc'',
      \<lparr>upstream = \<lparr>channels_script = [], search_script = [], videos_script = []\<rparr>,
       trace = [ChannelsCall (ChannelsById ''id'' ''UCabc'')
                  (Inr \<lparr>channel_items = Some [ChannelItem (Some ''UCabc'')]\<rparr>)]\<rparr>)
   \<and> fst (get_channel_id scripted ''somebody''
     \<lparr>upstream = \<lparr>channels_script = [Inr \<lparr>channel_items = None\<rparr>],
                   search_script = [], videos_script = []\<rparr>,
      trace = []\<rparr>)
     = Inl (ValueError ''Channel not found: somebody'')
   \<and> trace (snd (get_channel_id scripted ''somebody''
     \<lparr>upstream = \<lparr>channels_script = [Inr \<lparr>channel_items = None\<rparr>],
                   search_script = [], videos_script = []\<rparr>,
      trace = []\<rparr>))
     = [ChannelsCall (ChannelsForUsername ''id'' ''somebody'') (Inr \<lparr>channel_items = None\<rparr>)]"
proof -
  let ?r1 = "\<lparr>channel_items = Some [ChannelItem (Some ''UCabc'')]\<rparr>"
  let ?u1 = "\<lparr>channels_script = [Inr ?r1], search_script = [], videos_script = []\<rparr>"
  let ?u0 = "\<lparr>channels_script = [], search_script = [], videos_script = []\<rparr>"
  let ?r2 = "\<lparr>channel_items = None\<rparr>"
  let ?u2 = "\<lparr>channels_script = [Inr ?r2], search_script = [], videos_script = []\<rparr>"
  have a: "prefix ''UC'' ''UCabc''
      \<and> channels_list scripted (ChannelsById ''id'' ''UCabc'') (upstream \<lparr>upstream = ?u1, trace = []\<rparr>)
          = (Inr ?r1, ?u0)
      \<and> channel_items ?r1 = Some (ChannelItem (Some ''UCabc'') # [])"
    by (simp add: scripted_def)
  have b: "\<not> prefix ''UC'' ''somebody''
      \<and> fst (channels_list scripted (ChannelsForUsername ''id'' ''somebody'')
               (upstream \<lparr>upstream = ?u2, trace = []\<rparr>)) = Inr ?r2
      \<and> (channel_items ?r2 = None \<or> channel_items ?r2 = Some [])"
    by (simp add: scripted_def)
  show ?thesis
    using get_channel_id_lookup_order
      [of "''UCabc''" scripted "\<lparr>upstream = ?u1, trace = []\<rparr>" ?r1 ?u0
        "ChannelItem (Some ''UCabc'')" "[]"]
      get_channel_id_lookup_order
      [of "''somebody''" scripted "\<lparr>upstream = ?u2, trace = []\<rparr>" ?r2]
      a b
    by simp
qed

section \<open>Properties of the date-range label\<close>

lemma date_range_both:
  "a \<noteq> [] \<Longrightarrow> b \<noteq> [] \<Longrightarrow>
   date_range (Some a) (Some b) = (if take 4 a = take 4 b then take 4 a else take 4 a @ ''-'' @ take 4 b)"
  by (simp add: date_range_def truthy_def year_or_all_def)

lemma date_range_none: "date_range None None = ''all_dates''"
  by (simp add: date_range_def truthy_def)

text \<open>
  \<^bold>\<open>C8.\<close> The code at the failing input: with only one of the two bounds set the
  label is \<open>all_dates\<close>, because the outer test requires both bounds. The claim
  says such a window is not labelled \<open>all_dates\<close>.
\<close>

theorem date_range_one_bound:
  "date_range (Some ''2022-01-01T00:00:00Z'') None = ''all_dates''
   \<and> date_range None (Some ''2022-12-31T23:59:59Z'') = ''all_dates''"
  by (simp add: date_range_def truthy_def)

section \<open>Properties of \<open>_parse_video_data\<close>\<close>

lemma parse_video_data_fields:
  assumes "parse_video_data item = Inr m"
  shows "\<exists>vid. vd_id item = Some vid \<and> video_id m = vid
           \<and> url m = ''https://www.youtube.com/watch?v='' @ vid"
proof -
  from assms obtain snippet where sn: "vd_snippet item = Some snippet"
    by (cases "vd_snippet item") (simp_all add: parse_video_data_def)
  from assms obtain vid where vid: "vd_id item = Some vid"
    by (cases "vd_id item")
      (auto simp: parse_video_data_def sn Let_def ebind_def split: sum.splits)
  from assms sn vid have "video_id m = vid \<and> url m = ''https://www.youtube.com/watch?v='' @ vid"
    by (auto simp: parse_video_data_def Let_def ebind_def split: sum.splits)
  with vid show ?thesis by simp
qed

lemma parse_sample_video: "parse_video_data (sample_video vid) = Inr (sample_metadata vid)"
proof -
  have d: "parse_duration ''PT4M13S'' = Inr ''4:13''" by code_simp
  have i: "py_int ''12'' = Inr 12" "py_int ''0'' = Inr 0" by code_simp+
  show ?thesis
    by (simp add: parse_video_data_def sample_video_def sample_metadata_def get_or_def d i
        select_thumbnail_def url_of_thumbnail_def int_or_0_def)
qed

text \<open>
  \<^bold>\<open>C9.\<close> For every item that \<open>_parse_video_data\<close> parses, the \<open>url\<close> of the record
  is the fixed prefix followed by the record's \<open>video_id\<close> (which is the item's
  \<open>id\<close>), so two parsed records with the same \<open>url\<close> have the same \<open>video_id\<close>.
\<close>

theorem parse_video_data_url:
  "parse_video_data item = Inr m \<Longrightarrow>
     url m = ''https://www.youtube.com/watch?v='' @ video_id m
     \<and> vd_id item = Some (video_id m)
     \<and> (\<forall>item' m'. parse_video_data item' = Inr m' \<and> url m' = url m \<longrightarrow> video_id m' = video_id m)"
proof -
  assume p: "parse_video_data item = Inr m"
  have u: "url m = ''https://www.youtube.com/watch?v='' @ video_id m \<and> vd_id item = Some (video_id m)"
    using parse_video_data_fields [OF p] by auto
  have "video_id m' = video_id m" if "parse_video_data item' = Inr m'" "url m' = url m" for item' m'
  proof -
    have "url m' = ''https://www.youtube.com/watch?v='' @ video_id m'"
      using parse_video_data_fields [OF that(1)] by auto
    with u that(2) show ?thesis by simp
  qed
  with u show ?thesis by blast
qed

theorem parse_video_data_url_witness:
  "url (sample_metadata ''dQw4w9WgXcQ'') = ''https://www.youtube.com/watch?v=dQw4w9WgXcQ''
   \<and> vd_id (sample_video ''dQw4w9WgXcQ'') = Some ''dQw4w9WgXcQ''"
  using parse_video_data_url [OF parse_sample_video [of "''dQw4w9WgXcQ''"]]
  by (simp add: sample_metadata_def)

section \<open>Rate limiting in the two loops\<close>

text \<open>
  \<^bold>\<open>C1.\<close> The code at the failing input. The upstream answers the first metadata
  call with 403 and would answer the next one with the video: \<open>get_video_metadata\<close>
  prints, sleeps 60 seconds and goes on to the next batch, so the batch is missing
  from the result and the second answer is never asked for. The listing loop on
  the same kind of upstream repeats the call and returns the page.
\<close>

theorem rate_limit_batch_dropped:
  "get_video_metadata scripted [''a'']
     \<lparr>upstream = \<lparr>channels_script = [], search_script = [],
                   videos_script = [Inl (HttpError 403 ''quotaExceeded''),
                                    Inr \<lparr>video_items = Some [sample_video ''a'']\<rparr>]\<rparr>,
      trace = []\<rparr>
   = (Inr [],
      \<lparr>upstream = \<lparr>channels_script = [], search_script = [],
                    videos_script = [Inr \<lparr>video_items = Some [sample_video ''a'']\<rparr>]\<rparr>,
       trace = [Print ''Fetching video metadata...'',
                VideosCall (videos_request_of [''a'']) (Inl (HttpError 403 ''quotaExceeded'')),
                Print ''Rate limit exceeded. Waiting 60 seconds...'',
                Sleep 60000]\<rparr>)
   \<and> get_all_video_ids 2 scripted ''UCabc'' None None None
     \<lparr>upstream = \<lparr>channels_script = [],
                   search_script = [Inl (HttpError 403 ''quotaExceeded''),
                                    Inr \<lparr>search_items = Some [SearchItem (Some ''a'')],
                                         nextPageToken = None\<rparr>],
                   videos_script = []\<rparr>,
      trace = []\<rparr>
   = Some (Inr [''a''],
      \<lparr>upstream = \<lparr>channels_script = [], search_script = [], videos_script = []\<rparr>,
       trace = [Print ''Fetching video IDs from channel (latest first)...'',
                SearchCall \<lparr>part = ''id'', channelId = ''UCabc'', pageToken = None,
                            publishedAfter = None, publishedBefore = None\<rparr>
                  (Inl (HttpError 403 ''quotaExceeded'')),
                Print ''Rate limit exceeded. Waiting 60 seconds...'',
                Sleep 60000,
                SearchCall \<lparr>part = ''id'', channelId = ''UCabc'', pageToken = None,
                            publishedAfter = None, publishedBefore = None\<rparr>
                  (Inr \<lparr>search_items = Some [SearchItem (Some ''a'')], nextPageToken = None\<rparr>),
                Print ''Found 1 videos'']\<rparr>)"
proof -
  have b: "batches [''a''] = [[''a'']]"
    by (simp add: batches_def batch_size_def range_step.simps)
  have n: "str_nat (Suc 0) = ''1''" by code_simp
  have two: "(2::nat) = Suc (Suc 0)" by simp
  have 1: "get_video_metadata scripted [''a'']
     \<lparr>upstream = \<lparr>channels_script = [], search_script = [],
                   videos_script = [Inl (HttpError 403 ''quotaExceeded''),
                                    Inr \<lparr>video_items = Some [sample_video ''a'']\<rparr>]\<rparr>,
      trace = []\<rparr>
   = (Inr [],
      \<lparr>upstream = \<lparr>channels_script = [], search_script = [],
                    videos_script = [Inr \<lparr>video_items = Some [sample_video ''a'']\<rparr>]\<rparr>,
       trace = [Print ''Fetching video metadata...'',
                VideosCall (videos_request_of [''a'']) (Inl (HttpError 403 ''quotaExceeded'')),
                Print ''Rate limit exceeded. Waiting 60 seconds...'',
                Sleep 60000]\<rparr>)"
    by (simp add: get_video_metadata_def b execute_videos_def scripted_def py_print_def
        sleep_def cooldown_def)
  have 2: "get_all_video_ids 2 scripted ''UCabc'' None None None
     \<lparr>upstream = \<lparr>channels_script = [],
                   search_script = [Inl (HttpError 403 ''quotaExceeded''),
                                    Inr \<lparr>search_items = Some [SearchItem (Some ''a'')],
                                         nextPageToken = None\<rparr>],
                   videos_script = []\<rparr>,
      trace = []\<rparr>
   = Some (Inr [''a''],
      \<lparr>upstream = \<lparr>channels_script = [], search_script = [], videos_script = []\<rparr>,
       trace = [Print ''Fetching video IDs from channel (latest first)...'',
                SearchCall \<lparr>part = ''id'', channelId = ''UCabc'', pageToken = None,
                            publishedAfter = None, publishedBefore = None\<rparr>
                  (Inl (HttpError 403 ''quotaExceeded'')),
                Print ''Rate limit exceeded. Waiting 60 seconds...'',
                Sleep 60000,
                SearchCall \<lparr>part = ''id'', channelId = ''UCabc'', pageToken = None,
                            publishedAfter = None, publishedBefore = None\<rparr>
                  (Inr \<lparr>search_items = Some [SearchItem (Some ''a'')], nextPageToken = None\<rparr>),
                Print ''Found 1 videos'']\<rparr>)"
    by (simp add: get_all_video_ids_def announce_def two execute_search_def scripted_def
        py_print_def sleep_def cooldown_def truthy_def limit_hit_def search_params_of_def n)
  from 1 2 show ?thesis by (rule conjI)
qed

section \<open>Properties of \<open>get_video_metadata\<close>\<close>









lemma trace_effects [simp]:
  "trace (sleep ms w) = trace w @ [Sleep ms]" "trace (py_print line w) = trace w @ [Print line]"
  by (simp_all add: sleep_def py_print_def)

lemma execute_videos_eq:
  "videos_list a q (upstream w) = (r, u) \<Longrightarrow>
   execute_videos a q w = (r, w\<lparr>upstream := u, trace := trace w @ [VideosCall q r]\<rparr>)"
  by (simp add: execute_videos_def)


















section \<open>Properties of \<open>get_all_video_ids\<close>\<close>





lemma limit_hit_None [simp]: "limit_hit None ids = None"
  by (simp add: limit_hit_def)




subsection \<open>One iteration of the listing loop\<close>

lemma video_ids_loop_rate_limited:
  assumes "search_list a (search_params_of cid tok pa pb) (upstream w) = (Inl e, u)"
    and "status e = 403"
  shows "video_ids_loop (Suc fuel) a cid maxv pa pb acc tok w =
         video_ids_loop fuel a cid maxv pa pb acc tok
           (sleep cooldown (py_print ''Rate limit exceeded. Waiting 60 seconds...''
              (w\<lparr>upstream := u,
                 trace := trace w @ [SearchCall (search_params_of cid tok pa pb) (Inl e)]\<rparr>)))"
  using assms by (simp add: execute_search_def)

lemma video_ids_loop_failed:
  assumes "search_list a (search_params_of cid tok pa pb) (upstream w) = (Inl e, u)"
    and "status e \<noteq> 403"
  shows "video_ids_loop (Suc fuel) a cid maxv pa pb acc tok w =
         Some (Inl (Exception (''Error fetching video IDs: '' @ message e)),
               w\<lparr>upstream := u,
                 trace := trace w @ [SearchCall (search_params_of cid tok pa pb) (Inl e)]\<rparr>)"
  using assms by (simp add: execute_search_def)

lemma video_ids_loop_no_items:
  assumes "search_list a (search_params_of cid tok pa pb) (upstream w) = (Inr response, u)"
    and "search_items response = None"
  shows "video_ids_loop (Suc fuel) a cid maxv pa pb acc tok w =
         Some (Inr acc,
               py_print ''Warning: No 'items' in response''
                 (w\<lparr>upstream := u,
                    trace := trace w @ [SearchCall (search_params_of cid tok pa pb) (Inr response)]\<rparr>))"
  using assms by (simp add: execute_search_def)

lemma video_ids_loop_key_error:
  assumes "search_list a (search_params_of cid tok pa pb) (upstream w) = (Inr response, u)"
    and "search_items response = Some items"
    and "extend_ids maxv acc items = Inl x"
  shows "video_ids_loop (Suc fuel) a cid maxv pa pb acc tok w =
         Some (Inl x,
               w\<lparr>upstream := u,
                 trace := trace w @ [SearchCall (search_params_of cid tok pa pb) (Inr response)]\<rparr>)"
  using assms by (simp add: execute_search_def)

lemma video_ids_loop_limit:
  assumes "search_list a (search_params_of cid tok pa pb) (upstream w) = (Inr response, u)"
    and "search_items response = Some items"
    and "extend_ids maxv acc items = Inr ids1"
    and "limit_hit maxv ids1 = Some m"
  shows "video_ids_loop (Suc fuel) a cid maxv pa pb acc tok w =
         Some (Inr (slice_to ids1 m),
               w\<lparr>upstream := u,
                 trace := trace w @ [SearchCall (search_params_of cid tok pa pb) (Inr response)]\<rparr>)"
  using assms by (simp add: execute_search_def)

lemma video_ids_loop_last_page:
  assumes "search_list a (search_params_of cid tok pa pb) (upstream w) = (Inr response, u)"
    and "search_items response = Some items"
    and "extend_ids maxv acc items = Inr ids1"
    and "limit_hit maxv ids1 = None"
    and "\<not> truthy (nextPageToken response)"
  shows "video_ids_loop (Suc fuel) a cid maxv pa pb acc tok w =
         Some (Inr ids1,
               w\<lparr>upstream := u,
                 trace := trace w @ [SearchCall (search_params_of cid tok pa pb) (Inr response)]\<rparr>)"
  using assms by (simp add: execute_search_def)

lemma video_ids_loop_next_page:
  assumes "search_list a (search_params_of cid tok pa pb) (upstream w) = (Inr response, u)"
    and "search_items response = Some items"
    and "extend_ids maxv acc items = Inr ids1"
    and "limit_hit maxv ids1 = None"
    and "truthy (nextPageToken response)"
  shows "video_ids_loop (Suc fuel) a cid maxv pa pb acc tok w =
         video_ids_loop fuel a cid maxv pa pb ids1 (nextPageToken response)
           (sleep rate_limit_delay
              (w\<lparr>upstream := u,
                 trace := trace w @ [SearchCall (search_params_of cid tok pa pb) (Inr response)]\<rparr>))"
  using assms by (simp add: execute_search_def)

subsection \<open>The unbounded listing\<close>




subsection \<open>The bounded listing against the unbounded one\<close>


subsection \<open>get_all_video_ids\<close>


lemma listed_prints [simp]: "listed (map Print ls @ t) = listed t"
  by (induction ls) simp_all

lemma last_search_prints [simp]: "last_search (map Print ls @ t) = last_search t"
  by (induction ls) simp_all

lemma calls_below_prints [simp]: "calls_below k n (map Print ls @ t) = calls_below k n t"
  by (induction ls) simp_all


lemma listed_only_prints [simp]: "listed (map Print ls) = []"
  using listed_prints [of ls "[]"] by simp

lemma last_search_only_prints [simp]: "last_search (map Print ls) = None"
  using last_search_prints [of ls "[]"] by simp

lemma calls_below_only_prints [simp]: "calls_below k n (map Print ls)"
  using calls_below_prints [of k n ls "[]"] by simp

lemma extend_ids_error: "extend_ids maxv acc items = Inl x \<Longrightarrow> x = KeyError ''videoId''"
proof (induction items arbitrary: acc)
  case Nil
  then show ?case by simp
next
  case (Cons item items)
  show ?case
  proof (cases "videoId_of item")
    case None
    with Cons.prems show ?thesis by simp
  next
    case (Some v)
    show ?thesis
    proof (cases "limit_hit maxv (acc @ [v])")
      case None
      with Cons.prems Some have "extend_ids maxv (acc @ [v]) items = Inl x" by simp
      then show ?thesis by (rule Cons.IH)
    next
      case hit: (Some m)
      with Cons.prems Some show ?thesis by simp
    qed
  qed
qed

text \<open>
  The listing loop never raises for a 403: what it raises is the wrapped error of a
  call that failed with another status, or the \<open>KeyError\<close> of a malformed item.
\<close>

lemma video_ids_loop_errors:
  "video_ids_loop fuel a cid maxv pa pb acc tok w = Some (Inl x, w1) \<Longrightarrow>
   x = KeyError ''videoId''
   \<or> (\<exists>e. status e \<noteq> 403 \<and> x = Exception (''Error fetching video IDs: '' @ message e))"
proof (induction fuel arbitrary: acc tok w)
  case 0
  then show ?case by simp
next
  case (Suc fuel)
  let ?q = "search_params_of cid tok pa pb"
  obtain r u where c: "search_list a ?q (upstream w) = (r, u)"
    by (cases "search_list a ?q (upstream w)")
  show ?case
  proof (cases r)
    case (Inl e)
    show ?thesis
    proof (cases "status e = 403")
      case True
      from Suc.prems video_ids_loop_rate_limited [OF c [unfolded Inl] True]
      have "video_ids_loop fuel a cid maxv pa pb acc tok
          (sleep cooldown (py_print ''Rate limit exceeded. Waiting 60 seconds...''
              (w\<lparr>upstream := u, trace := trace w @ [SearchCall ?q (Inl e)]\<rparr>)))
          = Some (Inl x, w1)" by simp
      then show ?thesis by (rule Suc.IH)
    next
      case False
      from Suc.prems video_ids_loop_failed [OF c [unfolded Inl] False]
      have "x = Exception (''Error fetching video IDs: '' @ message e)" by simp
      with False show ?thesis by blast
    qed
  next
    case (Inr response)
    note c' = c [unfolded Inr]
    show ?thesis
    proof (cases "search_items response")
      case None
      from Suc.prems video_ids_loop_no_items [OF c' None] show ?thesis by simp
    next
      case (Some items)
      show ?thesis
      proof (cases "extend_ids maxv acc items")
        case (Inl y)
        from Suc.prems video_ids_loop_key_error [OF c' Some Inl] have "x = y" by simp
        with extend_ids_error [OF Inl] show ?thesis by simp
      next
        case ids1: (Inr ids1)
        show ?thesis
        proof (cases "limit_hit maxv ids1")
          case hit: (Some m)
          from Suc.prems video_ids_loop_limit [OF c' Some ids1 hit] show ?thesis by simp
        next
          case None
          show ?thesis
          proof (cases "truthy (nextPageToken response)")
            case False
            from Suc.prems video_ids_loop_last_page [OF c' Some ids1 None False]
            show ?thesis by simp
          next
            case True
            from Suc.prems video_ids_loop_next_page [OF c' Some ids1 None True]
            have "video_ids_loop fuel a cid maxv pa pb ids1 (nextPageToken response)
                (sleep rate_limit_delay
                  (w\<lparr>upstream := u, trace := trace w @ [SearchCall ?q (Inr response)]\<rparr>))
                = Some (Inl x, w1)" by simp
            then show ?thesis by (rule Suc.IH)
          qed
        qed
      qed
    qed
  qed
qed



section \<open>Properties of the calendar arithmetic\<close>
























section \<open>Properties of moved dates\<close>






section \<open>Properties of the date buffer of \<open>scrape_channel\<close>\<close>























end
